theory Spec2Isabelle
  imports Complex_Main "HOL-Library.AList"
begin

section \<open>Python values used by the services\<close>

text \<open>
  Strings are lists of characters; one \<^typ>\<open>char\<close> stands for one Python character, so
  \<^const>\<open>length\<close> is Python's \<open>len\<close> and \<^const>\<open>take\<close> is a slice \<open>s[:n]\<close>. A Python float is
  idealised as an exact \<^typ>\<open>real\<close>. A dictionary read with \<open>d.get(key, default)\<close> is a
  record whose fields are options: \<open>None\<close> is the absent key.
\<close>

type_synonym metadata = "(string \<times> string) list"
type_synonym embedding = "real list"
type_synonym timestamp = string

definition py_get :: "'a option \<Rightarrow> 'a \<Rightarrow> 'a" where
  "py_get v dflt = (case v of None \<Rightarrow> dflt | Some x \<Rightarrow> x)"

text \<open>\<open>sep.join(parts)\<close>.\<close>

fun join :: "string \<Rightarrow> string list \<Rightarrow> string" where
  "join sep [] = []"
| "join sep [x] = x"
| "join sep (x # y # ys) = x @ sep @ join sep (y # ys)"



text \<open>
  \<open>round(x, 2)\<close>: the nearest multiple of 1/100, a tie going to the even one.
\<close>

definition py_round2 :: "real \<Rightarrow> real" where
  "py_round2 x =
     (let y = x * 100;
          f = \<lfloor>y\<rfloor>;
          r = y - of_int f
      in of_int (if r < 1 / 2 then f
                 else if 1 / 2 < r then f + 1
                 else if even f then f else f + 1) / 100)"




text \<open>\<open>needle in haystack\<close> on strings.\<close>

fun starts_with :: "string \<Rightarrow> string \<Rightarrow> bool" where
  "starts_with [] s = True"
| "starts_with (p # ps) [] = False"
| "starts_with (p # ps) (c # cs) = (p = c \<and> starts_with ps cs)"

fun contains :: "string \<Rightarrow> string \<Rightarrow> bool" where
  "contains needle [] = (needle = [])"
| "contains needle (c # cs) = (starts_with needle (c # cs) \<or> contains needle cs)"


section \<open>rag\_service.py\<close>

text \<open>
  A context document is the dictionary built by \<open>search_documents\<close>; the orchestrator reads
  it with \<open>.get\<close> only. A chat message is a dictionary with the keys \<open>role\<close> and \<open>content\<close>.
\<close>

record document =
  doc_id :: "string option"
  doc_title :: "string option"
  doc_content :: "string option"
  doc_metadata :: "metadata option"
  doc_score :: "real option"
  doc_created_at :: "timestamp option"

record chat_message =
  msg_role :: "string option"
  msg_content :: "string option"

record source =
  src_title :: string
  content_preview :: string
  src_score :: real
  src_metadata :: metadata

definition newline :: string where
  "newline = [CHR 0x0A]"

text \<open>The default title \<open>Sin t\'itulo\<close>; its sixth character is U+00ED.\<close>

definition sin_titulo :: string where
  "sin_titulo = ''Sin t'' @ [CHR 0xED] @ ''tulo''"

text \<open>\<open>RAGService._prepare_context\<close>\<close>

definition prepare_context :: "document list \<Rightarrow> string" where
  "prepare_context documents =
     join newline
       (foldl (\<lambda>context_parts doc.
                 context_parts @
                 [''Documento: '' @ py_get (doc_title doc) sin_titulo,
                  ''Contenido: '' @ py_get (doc_content doc) [],
                  ''---''])
          [] documents)"



text \<open>\<open>RAGService._prepare_sources\<close>\<close>

definition prepare_sources :: "document list \<Rightarrow> source list" where
  "prepare_sources documents =
     foldl (\<lambda>sources doc.
              sources @
              [\<lparr>src_title = py_get (doc_title doc) sin_titulo,
                content_preview =
                  (if 200 < length (py_get (doc_content doc) [])
                   then take 200 (py_get (doc_content doc) []) @ ''...''
                   else py_get (doc_content doc) []),
                src_score = py_get (doc_score doc) 0,
                src_metadata = py_get (doc_metadata doc) []\<rparr>])
       [] documents"


section \<open>opensearch\_service.py\<close>

text \<open>
  The record stored under a document id, the partial document sent by an update, the
  search request and one hit of the engine's answer. A hit's \<open>_source\<close> is read with
  \<open>hit['_source'][key]\<close>, which raises \<open>KeyError\<close> on an absent key.
\<close>

record doc_body =
  rec_title :: string
  rec_content :: string
  rec_embedding :: embedding
  rec_metadata :: metadata
  created_at :: timestamp
  updated_at :: timestamp

record update_doc =
  upd_updated_at :: timestamp
  upd_title :: "string option"
  upd_content :: "string option"
  upd_embedding :: "embedding option"
  upd_metadata :: "metadata option"

record search_request =
  req_size :: int
  req_query :: string
  req_fields :: "string list"
  req_type :: string
  req_fuzziness :: string
  req_source :: "string list"

record hit =
  hit_id :: string
  hit_score :: real
  hit_title :: "string option"
  hit_content :: "string option"
  hit_metadata :: "metadata option"
  hit_created_at :: "timestamp option"

text \<open>
  What the service calls and does not define: the OpenSearch client (\<open>search\<close>,
  \<open>indices.exists\<close>, \<open>indices.create\<close>, \<open>index\<close>, \<open>update\<close>) acting on a cluster state
  \<open>'s\<close>, the Bedrock embedding model and \<open>hashlib.md5(...).hexdigest()\<close>. A call that
  raises returns \<open>Inl\<close> of the exception's text and leaves the cluster as it was.
\<close>

record 's platform =
  os_search :: "'s \<Rightarrow> search_request \<Rightarrow> string + hit list"
  os_indices_exists :: "'s \<Rightarrow> string \<Rightarrow> string + bool"
  os_indices_create :: "'s \<Rightarrow> string \<Rightarrow> (string \<times> string) list \<Rightarrow> string + 's"
  os_index :: "'s \<Rightarrow> string \<Rightarrow> doc_body \<Rightarrow> string + 's"
  os_update :: "'s \<Rightarrow> string \<Rightarrow> update_doc \<Rightarrow> string + 's"
  bedrock_embedding :: "string \<Rightarrow> string + embedding"
  md5_hexdigest :: "string \<Rightarrow> string"

definition index_name :: string where
  "index_name = ''chatbot-documents''"

text \<open>The mappings of \<open>index_body\<close>: each field with its type.\<close>

definition index_body :: "(string \<times> string) list" where
  "index_body =
     [(''title'', ''text''), (''content'', ''text''), (''embedding'', ''dense_vector''),
      (''metadata'', ''object''), (''created_at'', ''date''), (''updated_at'', ''date'')]"

text \<open>
  \<open>OpenSearchService._create_index_if_not_exists\<close>: every exception is printed and
  swallowed, so the call always returns.
\<close>

definition create_index_if_not_exists :: "'s platform \<Rightarrow> 's \<Rightarrow> 's" where
  "create_index_if_not_exists p s =
     (case os_indices_exists p s index_name of
        Inl e \<Rightarrow> s
      | Inr True \<Rightarrow> s
      | Inr False \<Rightarrow>
          (case os_indices_create p s index_name index_body of
             Inl e \<Rightarrow> s
           | Inr s' \<Rightarrow> s'))"

text \<open>\<open>OpenSearchService._get_embedding_sync\<close>\<close>

definition get_embedding_sync :: "'s platform \<Rightarrow> string \<Rightarrow> string + embedding" where
  "get_embedding_sync p text =
     (case bedrock_embedding p text of
        Inl e \<Rightarrow> Inl (''Error getting embedding: '' @ e)
      | Inr v \<Rightarrow> Inr v)"

text \<open>
  \<open>OpenSearchService._index_document_sync\<close>. \<open>now1\<close> and \<open>now2\<close> are the two readings of
  \<open>datetime.now().isoformat()\<close>; the result is the \<open>_id\<close> of the response with the cluster
  after the write.
\<close>

definition index_document_sync ::
  "'s platform \<Rightarrow> timestamp \<Rightarrow> timestamp \<Rightarrow> 's \<Rightarrow> string \<Rightarrow> string \<Rightarrow> metadata option
     \<Rightarrow> string + (string \<times> 's)" where
  "index_document_sync p now1 now2 s title content metadata =
     (let doc_id = md5_hexdigest p (title @ content) in
      case get_embedding_sync p content of
        Inl e \<Rightarrow> Inl (''Error indexing document: '' @ e)
      | Inr embedding \<Rightarrow>
          (let body = \<lparr>rec_title = title, rec_content = content, rec_embedding = embedding,
                       rec_metadata = py_get metadata [],
                       created_at = now1, updated_at = now2\<rparr>
           in case os_index p s doc_id body of
                Inl e \<Rightarrow> Inl (''Error indexing document: '' @ e)
              | Inr s' \<Rightarrow> Inr (doc_id, s')))"

text \<open>The request of \<open>search_documents\<close>.\<close>

definition search_body :: "string \<Rightarrow> int \<Rightarrow> search_request" where
  "search_body query max_results =
     \<lparr>req_size = max_results, req_query = query,
      req_fields = [''title^2'', ''content''], req_type = ''best_fields'',
      req_fuzziness = ''AUTO'',
      req_source = [''title'', ''content'', ''metadata'', ''created_at'']\<rparr>"

text \<open>\<open>str(KeyError(key))\<close>: the key between apostrophes.\<close>

definition key_error :: "string \<Rightarrow> string" where
  "key_error k = [CHR 0x27] @ k @ [CHR 0x27]"

text \<open>The dictionary built from one hit; the keys are read in the order of the source.\<close>

definition hit_document :: "hit \<Rightarrow> string + document" where
  "hit_document h =
     (case hit_title h of
        None \<Rightarrow> Inl (key_error ''title'')
      | Some t \<Rightarrow>
     (case hit_content h of
        None \<Rightarrow> Inl (key_error ''content'')
      | Some c \<Rightarrow>
     (case hit_metadata h of
        None \<Rightarrow> Inl (key_error ''metadata'')
      | Some m \<Rightarrow>
     (case hit_created_at h of
        None \<Rightarrow> Inl (key_error ''created_at'')
      | Some ca \<Rightarrow>
          Inr \<lparr>doc_id = Some (hit_id h), doc_title = Some t, doc_content = Some c,
               doc_metadata = Some m, doc_score = Some (hit_score h),
               doc_created_at = Some ca\<rparr>))))"

text \<open>The loop over the hits, with the list \<open>results\<close> built so far.\<close>

fun process_hits :: "document list \<Rightarrow> hit list \<Rightarrow> string + document list" where
  "process_hits results [] = Inr results"
| "process_hits results (h # hs) =
     (case hit_document h of
        Inl e \<Rightarrow> Inl e
      | Inr d \<Rightarrow> process_hits (results @ [d]) hs)"

text \<open>
  \<open>OpenSearchService.search_documents\<close>: the result or the raised exception's text, with
  the cluster after the call.
\<close>

definition search_documents ::
  "'s platform \<Rightarrow> 's \<Rightarrow> string \<Rightarrow> int \<Rightarrow> (string + document list) \<times> 's" where
  "search_documents p s query max_results =
     (case (case os_search p s (search_body query max_results) of
              Inl e \<Rightarrow> Inl e
            | Inr hits \<Rightarrow> process_hits [] hits) of
        Inr results \<Rightarrow> (Inr results, s)
      | Inl e \<Rightarrow>
          if contains ''index_not_found_exception'' e
          then (Inr [], create_index_if_not_exists p s)
          else (Inl (''Error searching documents: '' @ e), s))"

text \<open>Python's truth value of an optional string or dictionary argument.\<close>

definition truthy :: "'a list option \<Rightarrow> bool" where
  "truthy v = (case v of None \<Rightarrow> False | Some x \<Rightarrow> x \<noteq> [])"

text \<open>
  \<open>OpenSearchService.update_document\<close>; \<open>now\<close> is the reading of
  \<open>datetime.now().isoformat()\<close>.
\<close>

definition update_document ::
  "'s platform \<Rightarrow> timestamp \<Rightarrow> 's \<Rightarrow> string \<Rightarrow> string option \<Rightarrow> string option
     \<Rightarrow> metadata option \<Rightarrow> string + 's" where
  "update_document p now s document_id title content metadata =
     (let doc0 = \<lparr>upd_updated_at = now, upd_title = None, upd_content = None,
                   upd_embedding = None, upd_metadata = None\<rparr>;
          doc1 = (if truthy title then doc0\<lparr>upd_title := title\<rparr> else doc0)
      in case (if truthy content
               then (case get_embedding_sync p (py_get content []) of
                       Inl e \<Rightarrow> Inl e
                     | Inr v \<Rightarrow> Inr (doc1\<lparr>upd_content := content, upd_embedding := Some v\<rparr>))
               else Inr doc1) of
           Inl e \<Rightarrow> Inl (''Error updating document: '' @ e)
         | Inr doc2 \<Rightarrow>
             (let doc3 = (if truthy metadata then doc2\<lparr>upd_metadata := metadata\<rparr> else doc2)
              in case os_update p s document_id doc3 of
                   Inl e \<Rightarrow> Inl (''Error updating document: '' @ e)
                 | Inr s' \<Rightarrow> Inr s'))"


section \<open>api/main.py\<close>

record chat_request =
  req_message :: string
  req_chat_history :: "chat_message list option"
  req_max_results :: "int option"
  req_user_id :: "string option"

text \<open>\<open>x or dflt\<close> on an optional integer: \<open>None\<close> and 0 are false.\<close>

definition py_or :: "int option \<Rightarrow> int \<Rightarrow> int" where
  "py_or v dflt = (case v of None \<Rightarrow> dflt | Some n \<Rightarrow> if n = 0 then dflt else n)"

text \<open>The retrieval step of \<open>chat\<close>: the call of \<open>search_documents\<close>.\<close>

definition chat_relevant_docs ::
  "'s platform \<Rightarrow> 's \<Rightarrow> chat_request \<Rightarrow> (string + document list) \<times> 's" where
  "chat_relevant_docs p s request =
     search_documents p s (req_message request) (py_or (req_max_results request) 5)"


section \<open>A reference cluster\<close>

text \<open>
  A cluster that holds one index: whether it exists, and its records by id. It answers as
  OpenSearch does: a search on a missing index raises \<open>index_not_found_exception\<close>, a
  negative \<open>size\<close> is rejected, a write under an id replaces the whole record, a partial
  update merges its fields into the record and fails on a missing id. Relevance ranking
  is not modelled: \<open>ranking\<close> stands for the hits the engine finds for a request.
\<close>

record cluster =
  index_exists :: bool
  docs :: "string \<rightharpoonup> doc_body"

definition index_not_found :: string where
  "index_not_found =
     ''NotFoundError(404, index_not_found_exception, no such index [chatbot-documents])''"

definition apply_update :: "doc_body \<Rightarrow> update_doc \<Rightarrow> doc_body" where
  "apply_update d u =
     d\<lparr>rec_title := py_get (upd_title u) (rec_title d),
       rec_content := py_get (upd_content u) (rec_content d),
       rec_embedding := py_get (upd_embedding u) (rec_embedding d),
       rec_metadata :=
         (case upd_metadata u of None \<Rightarrow> rec_metadata d
          | Some m \<Rightarrow> AList.merge (rec_metadata d) m),
       updated_at := upd_updated_at u\<rparr>"

definition reference_platform ::
  "(string \<Rightarrow> string) \<Rightarrow> (string \<Rightarrow> string + embedding) \<Rightarrow> (search_request \<Rightarrow> hit list)
     \<Rightarrow> cluster platform" where
  "reference_platform digest model ranking =
     \<lparr>os_search = (\<lambda>s req.
         if \<not> index_exists s then Inl index_not_found
         else if req_size req < 0
         then Inl ''RequestError(400, illegal_argument_exception, [size] parameter cannot be negative)''
         else Inr (take (nat (req_size req)) (ranking req))),
      os_indices_exists = (\<lambda>s name. Inr (index_exists s)),
      os_indices_create = (\<lambda>s name body.
         if index_exists s
         then Inl ''RequestError(400, resource_already_exists_exception)''
         else Inr (s\<lparr>index_exists := True\<rparr>)),
      os_index = (\<lambda>s i body. Inr (s\<lparr>index_exists := True, docs := (docs s)(i \<mapsto> body)\<rparr>)),
      os_update = (\<lambda>s i u.
         case docs s i of
           None \<Rightarrow> Inl ''NotFoundError(404, document_missing_exception)''
         | Some d \<Rightarrow> Inr (s\<lparr>docs := (docs s)(i \<mapsto> apply_update d u)\<rparr>)),
      bedrock_embedding = model,
      md5_hexdigest = digest\<rparr>"


section \<open>Example inputs\<close>

definition doc_example :: "string \<Rightarrow> string \<Rightarrow> real \<Rightarrow> document" where
  "doc_example t c s =
     \<lparr>doc_id = Some ''d1'', doc_title = Some t, doc_content = Some c,
      doc_metadata = Some [], doc_score = Some s,
      doc_created_at = Some ''2024-01-01T00:00:00''\<rparr>"


text \<open>A stand-in for the digest, an embedding model that always answers, an empty cluster.\<close>

definition toy_digest :: "string \<Rightarrow> string" where
  "toy_digest s = ''id-'' @ s"

definition toy_embed :: "string \<Rightarrow> string + embedding" where
  "toy_embed s = Inr [of_nat (length s)]"

definition toy_hit :: "string \<Rightarrow> hit" where
  "toy_hit i =
     \<lparr>hit_id = i, hit_score = 1, hit_title = Some ''AWS S3'',
      hit_content = Some ''S3 is object storage'', hit_metadata = Some [],
      hit_created_at = Some ''2024-01-01T00:00:00''\<rparr>"

definition toy_ranking :: "search_request \<Rightarrow> hit list" where
  "toy_ranking req = [toy_hit ''h1'', toy_hit ''h2'']"

definition toy_platform :: "cluster platform" where
  "toy_platform = reference_platform toy_digest toy_embed toy_ranking"

definition cold_cluster :: cluster where
  "cold_cluster = \<lparr>index_exists = False, docs = Map.empty\<rparr>"

definition warm_cluster :: cluster where
  "warm_cluster = \<lparr>index_exists = True, docs = Map.empty\<rparr>"

definition chat_example :: "int option \<Rightarrow> chat_request" where
  "chat_example n =
     \<lparr>req_message = ''object storage'', req_chat_history = Some [],
      req_max_results = n, req_user_id = None\<rparr>"


text \<open>
  Two writes of the same document at different times, two writes of documents whose titles
  and contents differ but concatenate to the same string, and three updates of the
  document written first.
\<close>

definition first_write :: "string + string \<times> cluster" where
  "first_write =
     index_document_sync toy_platform ''2024-01-01T00:00:00'' ''2024-01-01T00:00:01''
       cold_cluster ''AWS S3'' ''S3 is object storage'' None"

definition second_write :: "string + string \<times> cluster" where
  "second_write =
     index_document_sync toy_platform ''2024-06-01T00:00:00'' ''2024-06-01T00:00:01''
       (snd (projr first_write)) ''AWS S3'' ''S3 is object storage'' (Some [(''k'', ''v'')])"

definition collision_first :: "string + string \<times> cluster" where
  "collision_first =
     index_document_sync toy_platform ''2024-01-01T00:00:00'' ''2024-01-01T00:00:01''
       cold_cluster ''ab'' ''c'' None"

definition collision_second :: "string + string \<times> cluster" where
  "collision_second =
     index_document_sync toy_platform ''2024-06-01T00:00:00'' ''2024-06-01T00:00:01''
       (snd (projr collision_first)) ''a'' ''bc'' None"

definition metadata_update :: "string + cluster" where
  "metadata_update =
     update_document toy_platform ''2024-07-01T00:00:00'' (snd (projr first_write))
       ''id-AWS S3S3 is object storage'' None None (Some [(''tag'', ''x'')])"

definition content_update :: "string + cluster" where
  "content_update =
     update_document toy_platform ''2024-07-01T00:00:00'' (snd (projr first_write))
       ''id-AWS S3S3 is object storage'' None (Some ''new text'') None"

definition empty_content_update :: "string + cluster" where
  "empty_content_update =
     update_document toy_platform ''2024-07-01T00:00:00'' (snd (projr first_write))
       ''id-AWS S3S3 is object storage'' None (Some []) None"


section \<open>Characterisations used in the statements\<close>


text \<open>The block of one candidate: a title line, a content line and the delimiter line.\<close>

definition context_block :: "document \<Rightarrow> string list" where
  "context_block doc =
     [''Documento: '' @ py_get (doc_title doc) sin_titulo,
      ''Contenido: '' @ py_get (doc_content doc) [],
      ''---'']"



section \<open>Auxiliary facts\<close>

lemma foldl_snoc_map: "foldl (\<lambda>acc x. acc @ [f x]) a xs = a @ map f xs"
  by (induction xs arbitrary: a) simp_all

lemma foldl_append_concat: "foldl (\<lambda>acc x. acc @ f x) a xs = a @ concat (map f xs)"
  by (induction xs arbitrary: a) simp_all





lemma py_round2_hundredths: "\<exists>k::int. py_round2 x = of_int k / 100"
  unfolding py_round2_def Let_def by blast

lemma py_round2_near: "\<bar>py_round2 x - x\<bar> \<le> 1 / 200"
proof -
  define f where "f = \<lfloor>x * 100\<rfloor>"
  have lo: "of_int f \<le> x * 100" and hi: "x * 100 < of_int f + 1"
    unfolding f_def by linarith+
  show ?thesis
    unfolding py_round2_def Let_def f_def[symmetric]
    using lo hi by (auto simp: abs_le_iff field_simps)
qed



lemma prepare_context_parts:
  "prepare_context documents = join newline (concat (map context_block documents))"
proof -
  have "foldl (\<lambda>context_parts doc. context_parts @ context_block doc) [] documents =
        concat (map context_block documents)"
    by (simp add: foldl_append_concat)
  then show ?thesis
    by (simp add: prepare_context_def context_block_def)
qed

lemma concat_blocks_nth:
  assumes "i < length xs" and "\<And>x. length (f x) = n"
  shows "take n (drop (n * i) (concat (map f xs))) = f (xs ! i)"
  using assms
proof (induction xs arbitrary: i)
  case Nil
  then show ?case by simp
next
  case (Cons x xs)
  show ?case
  proof (cases i)
    case 0
    then show ?thesis using Cons.prems(2) by simp
  next
    case (Suc j)
    with Cons.prems have j: "j < length xs" by simp
    have "drop (n * i) (f x @ concat (map f xs)) = drop (n * j) (concat (map f xs))"
      using Suc Cons.prems(2)[of x] by (simp add: add.commute)
    then show ?thesis
      using Cons.IH[OF j Cons.prems(2)] Suc by simp
  qed
qed


lemma prepare_sources_map:
  "prepare_sources documents =
     map (\<lambda>doc. \<lparr>src_title = py_get (doc_title doc) sin_titulo,
                content_preview =
                  (if 200 < length (py_get (doc_content doc) [])
                   then take 200 (py_get (doc_content doc) []) @ ''...''
                   else py_get (doc_content doc) []),
                src_score = py_get (doc_score doc) 0,
                src_metadata = py_get (doc_metadata doc) []\<rparr>) documents"
  unfolding prepare_sources_def by (simp add: foldl_snoc_map)




section \<open>Confidence\<close>





section \<open>Context and history of the prompt\<close>

text \<open>
  C4, as the code has it: the context is the blocks of the candidates, each a line
  \<open>Documento: <title>\<close>, a line \<open>Contenido: <content>\<close> and a line \<open>---\<close>, joined by newlines
  in the order the candidates were received: the block at position \<open>i\<close> is that of the
  candidate at position \<open>i\<close>, and the scores have no influence.
\<close>

theorem prepare_context_order:
  "prepare_context documents = join newline (concat (map context_block documents)) \<and>
   (\<forall>i < length documents.
      take 3 (drop (3 * i) (concat (map context_block documents))) =
        context_block (documents ! i)) \<and>
   prepare_context (map (\<lambda>doc. doc\<lparr>doc_score := new_score doc\<rparr>) documents) =
     prepare_context documents"
proof (intro conjI allI impI)
  show "prepare_context documents = join newline (concat (map context_block documents))"
    by (rule prepare_context_parts)
next
  fix i assume "i < length documents"
  then show "take 3 (drop (3 * i) (concat (map context_block documents))) =
      context_block (documents ! i)"
    by (rule concat_blocks_nth) (simp add: context_block_def)
next
  have "map context_block (map (\<lambda>doc. doc\<lparr>doc_score := new_score doc\<rparr>) documents) =
      map context_block documents"
    by (simp add: context_block_def)
  then show "prepare_context (map (\<lambda>doc. doc\<lparr>doc_score := new_score doc\<rparr>) documents) =
      prepare_context documents"
    by (simp only: prepare_context_parts)
qed

theorem prepare_context_order_witness:
  "(1::nat) < length [doc_example ''A'' ''x'' (1 / 10), doc_example ''B'' ''y'' (9 / 10)] \<and>
   take 3 (drop (3 * 1) (concat (map context_block
     [doc_example ''A'' ''x'' (1 / 10), doc_example ''B'' ''y'' (9 / 10)]))) =
     [''Documento: B'', ''Contenido: y'', ''---''] \<and>
   prepare_context [doc_example ''A'' ''x'' (1 / 10), doc_example ''B'' ''y'' (9 / 10)] =
     ''Documento: A'' @ newline @ ''Contenido: x'' @ newline @ ''---'' @ newline @
     ''Documento: B'' @ newline @ ''Contenido: y'' @ newline @ ''---''"
  using prepare_context_order
    [of "[doc_example ''A'' ''x'' (1 / 10), doc_example ''B'' ''y'' (9 / 10)]"]
  by (simp add: doc_example_def context_block_def py_get_def)

text \<open>
  C4 as stated fails on the labels: the context of one candidate holds neither
  \<open>Document: <title>\<close> nor \<open>Content: <content>\<close>.
\<close>

theorem prepare_context_labels_counterexample:
  "prepare_context [doc_example ''AWS S3'' ''S3 is object storage'' 1] =
     ''Documento: AWS S3'' @ newline @ ''Contenido: S3 is object storage'' @ newline @ ''---'' \<and>
   \<not> contains ''Document: AWS S3''
       (prepare_context [doc_example ''AWS S3'' ''S3 is object storage'' 1]) \<and>
   \<not> contains ''Content: S3 is object storage''
       (prepare_context [doc_example ''AWS S3'' ''S3 is object storage'' 1])"
  by (simp add: prepare_context_def doc_example_def py_get_def newline_def)




section \<open>Source citations\<close>

text \<open>
  C6: there is one citation per candidate, in the same order; the preview of a content
  longer than 200 characters is its first 200 characters followed by \<open>...\<close> (203
  characters), and the preview of a content of at most 200 characters is the content.
\<close>

theorem prepare_sources_preview:
  "length (prepare_sources documents) = length documents \<and>
   (\<forall>i < length documents.
      (200 < length (py_get (doc_content (documents ! i)) []) \<longrightarrow>
         content_preview (prepare_sources documents ! i) =
           take 200 (py_get (doc_content (documents ! i)) []) @ ''...'' \<and>
         length (content_preview (prepare_sources documents ! i)) = 203) \<and>
      (length (py_get (doc_content (documents ! i)) []) \<le> 200 \<longrightarrow>
         content_preview (prepare_sources documents ! i) =
           py_get (doc_content (documents ! i)) []))"
  by (simp add: prepare_sources_map)

theorem prepare_sources_preview_witness:
  "(0::nat) < length [doc_example ''long'' (replicate 250 CHR ''a'') 1,
                      doc_example ''short'' (replicate 150 CHR ''b'') 1] \<and>
   (1::nat) < length [doc_example ''long'' (replicate 250 CHR ''a'') 1,
                      doc_example ''short'' (replicate 150 CHR ''b'') 1] \<and>
   200 < length (replicate 250 CHR ''a'') \<and> length (replicate 150 CHR ''b'') \<le> 200 \<and>
   content_preview (prepare_sources [doc_example ''long'' (replicate 250 CHR ''a'') 1,
                      doc_example ''short'' (replicate 150 CHR ''b'') 1] ! 0) =
     replicate 200 CHR ''a'' @ ''...'' \<and>
   content_preview (prepare_sources [doc_example ''long'' (replicate 250 CHR ''a'') 1,
                      doc_example ''short'' (replicate 150 CHR ''b'') 1] ! 1) =
     replicate 150 CHR ''b''"
  using prepare_sources_preview [of "[doc_example ''long'' (replicate 250 CHR ''a'') 1,
                      doc_example ''short'' (replicate 150 CHR ''b'') 1]"]
  by (simp add: doc_example_def py_get_def)


section \<open>Search\<close>



text \<open>
  C7, as the code has it: a \<open>max_results\<close> that is absent or zero makes \<open>chat\<close> search with
  the limit 5; any other value, a negative one too, is the limit of the search as it is.
\<close>

theorem chat_max_results_default:
  "(req_max_results request = None \<or> req_max_results request = Some 0 \<longrightarrow>
      chat_relevant_docs p s request = search_documents p s (req_message request) 5) \<and>
   (\<forall>n. req_max_results request = Some n \<and> n \<noteq> 0 \<longrightarrow>
      chat_relevant_docs p s request = search_documents p s (req_message request) n)"
  by (auto simp: chat_relevant_docs_def py_or_def)

theorem chat_max_results_default_witness:
  "req_max_results (chat_example None) = None \<and>
   chat_relevant_docs toy_platform warm_cluster (chat_example None) =
     search_documents toy_platform warm_cluster ''object storage'' 5 \<and>
   req_max_results (chat_example (Some 0)) = Some 0 \<and>
   chat_relevant_docs toy_platform warm_cluster (chat_example (Some 0)) =
     search_documents toy_platform warm_cluster ''object storage'' 5 \<and>
   req_max_results (chat_example (Some 1)) = Some 1 \<and> (1::int) \<noteq> 0 \<and>
   chat_relevant_docs toy_platform warm_cluster (chat_example (Some 1)) =
     search_documents toy_platform warm_cluster ''object storage'' 1"
  using chat_max_results_default [of "chat_example None" toy_platform warm_cluster]
    chat_max_results_default [of "chat_example (Some 0)" toy_platform warm_cluster]
    chat_max_results_default [of "chat_example (Some 1)" toy_platform warm_cluster]
  by (simp add: chat_example_def)

text \<open>
  C7 as stated fails: with \<open>max_results = -3\<close> the search is made with the limit -3, which
  the reference cluster rejects, and not with the limit 5.
\<close>

theorem chat_max_results_negative_counterexample:
  "req_max_results (chat_example (Some (- 3))) = Some (- 3) \<and>
   chat_relevant_docs toy_platform warm_cluster (chat_example (Some (- 3))) =
     search_documents toy_platform warm_cluster ''object storage'' (- 3) \<and>
   fst (chat_relevant_docs toy_platform warm_cluster (chat_example (Some (- 3)))) =
     Inl (''Error searching documents: '' @
          ''RequestError(400, illegal_argument_exception, [size] parameter cannot be negative)'') \<and>
   chat_relevant_docs toy_platform warm_cluster (chat_example (Some (- 3))) \<noteq>
     search_documents toy_platform warm_cluster ''object storage'' 5"
  by (simp add: chat_relevant_docs_def chat_example_def py_or_def search_documents_def
      search_body_def toy_platform_def reference_platform_def warm_cluster_def toy_ranking_def
      toy_hit_def hit_document_def)

lemma index_document_sync_id:
  assumes "index_document_sync p now1 now2 s title content metadata = Inr (i, s')"
  shows "i = md5_hexdigest p (title @ content)"
  using assms
  by (auto simp: index_document_sync_def Let_def split: sum.splits)

lemma index_document_sync_reference:
  assumes "model content = Inr v"
  shows "index_document_sync (reference_platform digest model ranking) now1 now2 s
           title content metadata =
         Inr (digest (title @ content),
              s\<lparr>index_exists := True,
                docs := (docs s)(digest (title @ content) \<mapsto>
                  \<lparr>rec_title = title, rec_content = content, rec_embedding = v,
                   rec_metadata = py_get metadata [],
                   created_at = now1, updated_at = now2\<rparr>)\<rparr>)"
  using assms
  by (simp add: index_document_sync_def get_embedding_sync_def reference_platform_def Let_def)

lemma first_write_eq:
  "first_write =
     Inr (''id-AWS S3S3 is object storage'',
          \<lparr>index_exists = True,
           docs = [''id-AWS S3S3 is object storage'' \<mapsto>
             \<lparr>rec_title = ''AWS S3'', rec_content = ''S3 is object storage'',
              rec_embedding = [20], rec_metadata = [],
              created_at = ''2024-01-01T00:00:00'', updated_at = ''2024-01-01T00:00:01''\<rparr>]\<rparr>)"
  unfolding first_write_def toy_platform_def
  by (subst index_document_sync_reference [where v = "[20]"])
     (simp_all add: toy_embed_def toy_digest_def cold_cluster_def py_get_def)

lemma second_write_eq:
  "second_write =
     Inr (''id-AWS S3S3 is object storage'',
          \<lparr>index_exists = True,
           docs = [''id-AWS S3S3 is object storage'' \<mapsto>
             \<lparr>rec_title = ''AWS S3'', rec_content = ''S3 is object storage'',
              rec_embedding = [20], rec_metadata = [(''k'', ''v'')],
              created_at = ''2024-06-01T00:00:00'', updated_at = ''2024-06-01T00:00:01''\<rparr>]\<rparr>)"
  unfolding second_write_def first_write_eq toy_platform_def
  by (subst index_document_sync_reference [where v = "[20]"])
     (simp_all add: toy_embed_def toy_digest_def py_get_def)

lemma first_cluster:
  "snd (projr first_write) =
     \<lparr>index_exists = True,
      docs = [''id-AWS S3S3 is object storage'' \<mapsto>
        \<lparr>rec_title = ''AWS S3'', rec_content = ''S3 is object storage'',
         rec_embedding = [20], rec_metadata = [],
         created_at = ''2024-01-01T00:00:00'', updated_at = ''2024-01-01T00:00:01''\<rparr>]\<rparr>"
  by (simp add: first_write_eq)

lemma collision_first_eq:
  "collision_first =
     Inr (''id-abc'',
          \<lparr>index_exists = True,
           docs = [''id-abc'' \<mapsto>
             \<lparr>rec_title = ''ab'', rec_content = ''c'',
              rec_embedding = [1], rec_metadata = [],
              created_at = ''2024-01-01T00:00:00'', updated_at = ''2024-01-01T00:00:01''\<rparr>]\<rparr>)"
  unfolding collision_first_def toy_platform_def
  by (subst index_document_sync_reference [where v = "[1]"])
     (simp_all add: toy_embed_def toy_digest_def cold_cluster_def py_get_def)

lemma collision_second_eq:
  "collision_second =
     Inr (''id-abc'',
          \<lparr>index_exists = True,
           docs = [''id-abc'' \<mapsto>
             \<lparr>rec_title = ''a'', rec_content = ''bc'',
              rec_embedding = [2], rec_metadata = [],
              created_at = ''2024-06-01T00:00:00'', updated_at = ''2024-06-01T00:00:01''\<rparr>]\<rparr>)"
  unfolding collision_second_def collision_first_eq toy_platform_def
  by (subst index_document_sync_reference [where v = "[2]"])
     (simp_all add: toy_embed_def toy_digest_def py_get_def)

lemma update_document_reference_keep:
  assumes "docs c i = Some d" and "\<not> truthy content"
  shows "update_document (reference_platform digest model ranking) now c i title content metadata =
         Inr (c\<lparr>docs := (docs c)(i \<mapsto>
           apply_update d
             \<lparr>upd_updated_at = now,
              upd_title = (if truthy title then title else None),
              upd_content = None, upd_embedding = None,
              upd_metadata = (if truthy metadata then metadata else None)\<rparr>)\<rparr>)"
  using assms
  by (simp add: update_document_def reference_platform_def Let_def)

lemma update_document_reference_content:
  assumes "docs c i = Some d" and "x \<noteq> []" and "model x = Inr v"
  shows "update_document (reference_platform digest model ranking) now c i title (Some x) metadata =
         Inr (c\<lparr>docs := (docs c)(i \<mapsto>
           apply_update d
             \<lparr>upd_updated_at = now,
              upd_title = (if truthy title then title else None),
              upd_content = Some x, upd_embedding = Some v,
              upd_metadata = (if truthy metadata then metadata else None)\<rparr>)\<rparr>)"
  using assms
  by (simp add: update_document_def reference_platform_def Let_def truthy_def
      get_embedding_sync_def py_get_def)

lemma update_document_reference_success:
  assumes "update_document (reference_platform digest model ranking) now c i title content metadata
           = Inr c'"
  shows "map_option updated_at (docs c' i) = Some now \<and> dom (docs c') = dom (docs c)"
  using assms
  by (auto simp: update_document_def reference_platform_def Let_def apply_update_def
      split: if_splits sum.splits option.splits)

lemma metadata_update_eq:
  "metadata_update =
     Inr \<lparr>index_exists = True,
          docs = [''id-AWS S3S3 is object storage'' \<mapsto>
            \<lparr>rec_title = ''AWS S3'', rec_content = ''S3 is object storage'',
             rec_embedding = [20], rec_metadata = [(''tag'', ''x'')],
             created_at = ''2024-01-01T00:00:00'', updated_at = ''2024-07-01T00:00:00''\<rparr>]\<rparr>"
  unfolding metadata_update_def first_cluster toy_platform_def
  by (subst update_document_reference_keep [where d = "\<lparr>rec_title = ''AWS S3'', rec_content = ''S3 is object storage'',
         rec_embedding = [20], rec_metadata = [],
         created_at = ''2024-01-01T00:00:00'', updated_at = ''2024-01-01T00:00:01''\<rparr>"])
     (simp_all add: truthy_def apply_update_def py_get_def AList.merge_def)

lemma content_update_eq:
  "content_update =
     Inr \<lparr>index_exists = True,
          docs = [''id-AWS S3S3 is object storage'' \<mapsto>
            \<lparr>rec_title = ''AWS S3'', rec_content = ''new text'',
             rec_embedding = [8], rec_metadata = [],
             created_at = ''2024-01-01T00:00:00'', updated_at = ''2024-07-01T00:00:00''\<rparr>]\<rparr>"
  unfolding content_update_def first_cluster toy_platform_def
  by (subst update_document_reference_content [where v = "[8]" and d = "\<lparr>rec_title = ''AWS S3'', rec_content = ''S3 is object storage'',
         rec_embedding = [20], rec_metadata = [],
         created_at = ''2024-01-01T00:00:00'', updated_at = ''2024-01-01T00:00:01''\<rparr>"])
     (simp_all add: truthy_def apply_update_def py_get_def toy_embed_def)

lemma empty_content_update_eq:
  "empty_content_update =
     Inr \<lparr>index_exists = True,
          docs = [''id-AWS S3S3 is object storage'' \<mapsto>
            \<lparr>rec_title = ''AWS S3'', rec_content = ''S3 is object storage'',
             rec_embedding = [20], rec_metadata = [],
             created_at = ''2024-01-01T00:00:00'', updated_at = ''2024-07-01T00:00:00''\<rparr>]\<rparr>"
  unfolding empty_content_update_def first_cluster toy_platform_def
  by (subst update_document_reference_keep [where d = "\<lparr>rec_title = ''AWS S3'', rec_content = ''S3 is object storage'',
         rec_embedding = [20], rec_metadata = [],
         created_at = ''2024-01-01T00:00:00'', updated_at = ''2024-01-01T00:00:01''\<rparr>"])
     (simp_all add: truthy_def apply_update_def py_get_def)


section \<open>Indexing\<close>

text \<open>
  C2: the id returned by an index write is the digest of the title followed by the
  content, so two writes of the same title and content return the same id, whatever the
  metadata, the time and the cluster; on the reference cluster both writes succeed when the
  embedding model answers, the second replaces the record of the first under that id, and
  the set of stored ids does not grow.
\<close>

theorem index_document_idempotent:
  "(index_document_sync p now1 now2 s title content m1 = Inr (i1, s1) \<and>
    index_document_sync p now3 now4 s1 title content m2 = Inr (i2, s2) \<longrightarrow>
      i1 = i2 \<and> i1 = md5_hexdigest p (title @ content)) \<and>
   (model content = Inr v \<longrightarrow>
      (\<exists>c1 c2.
         index_document_sync (reference_platform digest model ranking) now1 now2 c
           title content m1 = Inr (digest (title @ content), c1) \<and>
         index_document_sync (reference_platform digest model ranking) now3 now4 c1
           title content m2 = Inr (digest (title @ content), c2) \<and>
         dom (docs c1) = insert (digest (title @ content)) (dom (docs c)) \<and>
         dom (docs c2) = dom (docs c1) \<and>
         docs c2 (digest (title @ content)) =
           Some \<lparr>rec_title = title, rec_content = content, rec_embedding = v,
                 rec_metadata = py_get m2 [], created_at = now3, updated_at = now4\<rparr>))"
proof (intro conjI impI)
  assume a: "index_document_sync p now1 now2 s title content m1 = Inr (i1, s1) \<and>
    index_document_sync p now3 now4 s1 title content m2 = Inr (i2, s2)"
  from a show "i1 = md5_hexdigest p (title @ content)"
    by (blast dest: index_document_sync_id)
  moreover from a have "i2 = md5_hexdigest p (title @ content)"
    by (blast dest: index_document_sync_id)
  ultimately show "i1 = i2"
    by simp
next
  assume v: "model content = Inr v"
  show "\<exists>c1 c2.
         index_document_sync (reference_platform digest model ranking) now1 now2 c
           title content m1 = Inr (digest (title @ content), c1) \<and>
         index_document_sync (reference_platform digest model ranking) now3 now4 c1
           title content m2 = Inr (digest (title @ content), c2) \<and>
         dom (docs c1) = insert (digest (title @ content)) (dom (docs c)) \<and>
         dom (docs c2) = dom (docs c1) \<and>
         docs c2 (digest (title @ content)) =
           Some \<lparr>rec_title = title, rec_content = content, rec_embedding = v,
                 rec_metadata = py_get m2 [], created_at = now3, updated_at = now4\<rparr>"
    by (intro exI conjI, rule index_document_sync_reference [of model content v, OF v],
        rule index_document_sync_reference [of model content v, OF v]) simp_all
qed

theorem index_document_idempotent_witness:
  "toy_embed ''S3 is object storage'' = Inr [20] \<and>
   first_write = Inr (''id-AWS S3S3 is object storage'', snd (projr first_write)) \<and>
   second_write = Inr (''id-AWS S3S3 is object storage'', snd (projr second_write)) \<and>
   toy_digest (''AWS S3'' @ ''S3 is object storage'') = ''id-AWS S3S3 is object storage'' \<and>
   dom (docs (snd (projr first_write))) = {''id-AWS S3S3 is object storage''} \<and>
   dom (docs (snd (projr second_write))) = {''id-AWS S3S3 is object storage''} \<and>
   map_option rec_metadata
     (docs (snd (projr second_write)) ''id-AWS S3S3 is object storage'') = Some [(''k'', ''v'')]"
  using index_document_idempotent
    [of toy_platform "''2024-01-01T00:00:00''" "''2024-01-01T00:00:01''" cold_cluster
        "''AWS S3''" "''S3 is object storage''" None "''id-AWS S3S3 is object storage''"
        "snd (projr first_write)" "''2024-06-01T00:00:00''" "''2024-06-01T00:00:01''"
        "Some [(''k'', ''v'')]" "''id-AWS S3S3 is object storage''" "snd (projr second_write)"
        toy_embed "[20]" toy_digest toy_ranking cold_cluster]
  by (simp add: first_write_eq second_write_eq toy_embed_def toy_digest_def)

text \<open>
  C9, as the code has it: every index write stores the record with \<open>created_at\<close> and
  \<open>updated_at\<close> both taken from the clock at that write, whether or not a record was stored
  under the id before.
\<close>

theorem index_document_timestamps:
  "model content = Inr v \<longrightarrow>
     (\<exists>c'. index_document_sync (reference_platform digest model ranking) now1 now2 c
              title content metadata = Inr (digest (title @ content), c') \<and>
           map_option created_at (docs c' (digest (title @ content))) = Some now1 \<and>
           map_option updated_at (docs c' (digest (title @ content))) = Some now2)"
proof
  assume v: "model content = Inr v"
  show "\<exists>c'. index_document_sync (reference_platform digest model ranking) now1 now2 c
              title content metadata = Inr (digest (title @ content), c') \<and>
           map_option created_at (docs c' (digest (title @ content))) = Some now1 \<and>
           map_option updated_at (docs c' (digest (title @ content))) = Some now2"
    by (intro exI conjI, rule index_document_sync_reference [of model content v, OF v]) simp_all
qed

theorem index_document_timestamps_witness:
  "toy_embed ''S3 is object storage'' = Inr [20] \<and>
   second_write = Inr (''id-AWS S3S3 is object storage'', snd (projr second_write)) \<and>
   map_option created_at (docs (snd (projr second_write)) ''id-AWS S3S3 is object storage'') =
     Some ''2024-06-01T00:00:00'' \<and>
   map_option updated_at (docs (snd (projr second_write)) ''id-AWS S3S3 is object storage'') =
     Some ''2024-06-01T00:00:01''"
  using index_document_timestamps
    [of toy_embed "''S3 is object storage''" "[20]" toy_digest toy_ranking
        "''2024-06-01T00:00:00''" "''2024-06-01T00:00:01''" "snd (projr first_write)"
        "''AWS S3''" "Some [(''k'', ''v'')]"]
  by (simp add: second_write_eq toy_embed_def)

text \<open>
  C9 as stated fails: after the same title and content are indexed a second time, the
  record's \<open>created_at\<close> is the time of the second write, not that of the first.
\<close>

theorem index_document_created_at_counterexample:
  "first_write = Inr (''id-AWS S3S3 is object storage'', snd (projr first_write)) \<and>
   map_option created_at (docs (snd (projr first_write)) ''id-AWS S3S3 is object storage'') =
     Some ''2024-01-01T00:00:00'' \<and>
   second_write = Inr (''id-AWS S3S3 is object storage'', snd (projr second_write)) \<and>
   map_option created_at (docs (snd (projr second_write)) ''id-AWS S3S3 is object storage'') =
     Some ''2024-06-01T00:00:00'' \<and>
   map_option created_at (docs (snd (projr second_write)) ''id-AWS S3S3 is object storage'') \<noteq>
   map_option created_at (docs (snd (projr first_write)) ''id-AWS S3S3 is object storage'')"
  by (simp add: first_write_eq second_write_eq)

text \<open>
  C10: two documents whose titles and contents concatenate to the same string get the same
  id; indexing the second replaces the record of the first under that id, and the set of
  stored ids does not grow.
\<close>

theorem index_document_concat_collision:
  "title1 @ content1 = title2 @ content2 \<and> model content1 = Inr v1 \<and> model content2 = Inr v2 \<longrightarrow>
     (\<exists>c1 c2.
        index_document_sync (reference_platform digest model ranking) now1 now2 c
          title1 content1 m1 = Inr (digest (title1 @ content1), c1) \<and>
        index_document_sync (reference_platform digest model ranking) now3 now4 c1
          title2 content2 m2 = Inr (digest (title1 @ content1), c2) \<and>
        docs c1 (digest (title1 @ content1)) =
          Some \<lparr>rec_title = title1, rec_content = content1, rec_embedding = v1,
                rec_metadata = py_get m1 [], created_at = now1, updated_at = now2\<rparr> \<and>
        docs c2 (digest (title1 @ content1)) =
          Some \<lparr>rec_title = title2, rec_content = content2, rec_embedding = v2,
                rec_metadata = py_get m2 [], created_at = now3, updated_at = now4\<rparr> \<and>
        dom (docs c2) = dom (docs c1))"
proof
  assume a: "title1 @ content1 = title2 @ content2 \<and> model content1 = Inr v1 \<and>
    model content2 = Inr v2"
  then have v1: "model content1 = Inr v1" and v2: "model content2 = Inr v2"
    and eq: "title2 @ content2 = title1 @ content1"
    by simp_all
  define c1 where "c1 = c\<lparr>index_exists := True,
      docs := (docs c)(digest (title1 @ content1) \<mapsto>
        \<lparr>rec_title = title1, rec_content = content1, rec_embedding = v1,
         rec_metadata = py_get m1 [], created_at = now1, updated_at = now2\<rparr>)\<rparr>"
  define c2 where "c2 = c1\<lparr>index_exists := True,
      docs := (docs c1)(digest (title2 @ content2) \<mapsto>
        \<lparr>rec_title = title2, rec_content = content2, rec_embedding = v2,
         rec_metadata = py_get m2 [], created_at = now3, updated_at = now4\<rparr>)\<rparr>"
  have w1: "index_document_sync (reference_platform digest model ranking) now1 now2 c
      title1 content1 m1 = Inr (digest (title1 @ content1), c1)"
    unfolding c1_def by (rule index_document_sync_reference [of model content1 v1, OF v1])
  have "index_document_sync (reference_platform digest model ranking) now3 now4 c1
      title2 content2 m2 = Inr (digest (title2 @ content2), c2)"
    unfolding c2_def by (rule index_document_sync_reference [of model content2 v2, OF v2])
  then have w2: "index_document_sync (reference_platform digest model ranking) now3 now4 c1
      title2 content2 m2 = Inr (digest (title1 @ content1), c2)"
    by (simp only: eq)
  have r1: "docs c1 (digest (title1 @ content1)) =
      Some \<lparr>rec_title = title1, rec_content = content1, rec_embedding = v1,
            rec_metadata = py_get m1 [], created_at = now1, updated_at = now2\<rparr>"
    by (simp add: c1_def)
  have r2: "docs c2 (digest (title1 @ content1)) =
      Some \<lparr>rec_title = title2, rec_content = content2, rec_embedding = v2,
            rec_metadata = py_get m2 [], created_at = now3, updated_at = now4\<rparr>"
    by (simp add: c2_def eq)
  have d: "dom (docs c2) = dom (docs c1)"
    by (auto simp: c2_def c1_def eq)
  from w1 w2 r1 r2 d show "\<exists>c1 c2.
        index_document_sync (reference_platform digest model ranking) now1 now2 c
          title1 content1 m1 = Inr (digest (title1 @ content1), c1) \<and>
        index_document_sync (reference_platform digest model ranking) now3 now4 c1
          title2 content2 m2 = Inr (digest (title1 @ content1), c2) \<and>
        docs c1 (digest (title1 @ content1)) =
          Some \<lparr>rec_title = title1, rec_content = content1, rec_embedding = v1,
                rec_metadata = py_get m1 [], created_at = now1, updated_at = now2\<rparr> \<and>
        docs c2 (digest (title1 @ content1)) =
          Some \<lparr>rec_title = title2, rec_content = content2, rec_embedding = v2,
                rec_metadata = py_get m2 [], created_at = now3, updated_at = now4\<rparr> \<and>
        dom (docs c2) = dom (docs c1)"
    by blast
qed

theorem index_document_concat_collision_witness:
  "''ab'' @ ''c'' = ''a'' @ ''bc'' \<and> toy_embed ''c'' = Inr [1] \<and> toy_embed ''bc'' = Inr [2] \<and>
   collision_first = Inr (''id-abc'', snd (projr collision_first)) \<and>
   collision_second = Inr (''id-abc'', snd (projr collision_second)) \<and>
   map_option rec_title (docs (snd (projr collision_first)) ''id-abc'') = Some ''ab'' \<and>
   map_option rec_title (docs (snd (projr collision_second)) ''id-abc'') = Some ''a'' \<and>
   dom (docs (snd (projr collision_second))) = {''id-abc''}"
  using index_document_concat_collision
    [of "''ab''" "''c''" "''a''" "''bc''" toy_embed "[1]" "[2]" toy_digest toy_ranking
        "''2024-01-01T00:00:00''" "''2024-01-01T00:00:01''" cold_cluster None
        "''2024-06-01T00:00:00''" "''2024-06-01T00:00:01''" None]
  by (simp add: collision_first_eq collision_second_eq toy_embed_def)


section \<open>Updating\<close>

text \<open>
  C8, as the code has it, for a record stored under the id: an update whose content is
  absent or empty (one that supplies only metadata, for instance) succeeds and leaves the
  content and the embedding as they were; an update with a non-empty content, when the
  embedding model answers, stores that content with its newly computed embedding; in both
  cases the record stays under the same id with its \<open>created_at\<close>, no id is added or
  removed, and \<open>updated_at\<close> is the time of the update, as after every update that succeeds.
\<close>

theorem update_document_embedding:
  assumes "docs c i = Some d"
  shows
    "(\<not> truthy content \<longrightarrow>
        (\<exists>c' d'. update_document (reference_platform digest model ranking) now c i
                    title content metadata = Inr c' \<and>
                  docs c' i = Some d' \<and> dom (docs c') = dom (docs c) \<and>
                  rec_embedding d' = rec_embedding d \<and> rec_content d' = rec_content d \<and>
                  created_at d' = created_at d \<and> updated_at d' = now)) \<and>
     (content = Some x \<and> x \<noteq> [] \<and> model x = Inr v \<longrightarrow>
        (\<exists>c' d'. update_document (reference_platform digest model ranking) now c i
                    title content metadata = Inr c' \<and>
                  docs c' i = Some d' \<and> dom (docs c') = dom (docs c) \<and>
                  rec_embedding d' = v \<and> rec_content d' = x \<and>
                  created_at d' = created_at d \<and> updated_at d' = now)) \<and>
     (update_document (reference_platform digest model ranking) now c i
        title content metadata = Inr c'' \<longrightarrow>
        map_option updated_at (docs c'' i) = Some now \<and> dom (docs c'') = dom (docs c))"
proof (intro conjI impI)
  assume k: "\<not> truthy content"
  define u where "u = \<lparr>upd_updated_at = now,
      upd_title = (if truthy title then title else None),
      upd_content = None, upd_embedding = None,
      upd_metadata = (if truthy metadata then metadata else None)\<rparr>"
  have r: "update_document (reference_platform digest model ranking) now c i
      title content metadata = Inr (c\<lparr>docs := (docs c)(i \<mapsto> apply_update d u)\<rparr>)"
    unfolding u_def by (rule update_document_reference_keep [OF assms k])
  have "docs (c\<lparr>docs := (docs c)(i \<mapsto> apply_update d u)\<rparr>) i = Some (apply_update d u)"
    and "dom (docs (c\<lparr>docs := (docs c)(i \<mapsto> apply_update d u)\<rparr>)) = dom (docs c)"
    and "rec_embedding (apply_update d u) = rec_embedding d"
    and "rec_content (apply_update d u) = rec_content d"
    and "created_at (apply_update d u) = created_at d"
    and "updated_at (apply_update d u) = now"
    using assms by (auto simp: apply_update_def py_get_def u_def)
  with r show "\<exists>c' d'. update_document (reference_platform digest model ranking) now c i
                    title content metadata = Inr c' \<and>
                  docs c' i = Some d' \<and> dom (docs c') = dom (docs c) \<and>
                  rec_embedding d' = rec_embedding d \<and> rec_content d' = rec_content d \<and>
                  created_at d' = created_at d \<and> updated_at d' = now"
    by blast
next
  assume a: "content = Some x \<and> x \<noteq> [] \<and> model x = Inr v"
  define u where "u = \<lparr>upd_updated_at = now,
      upd_title = (if truthy title then title else None),
      upd_content = Some x, upd_embedding = Some v,
      upd_metadata = (if truthy metadata then metadata else None)\<rparr>"
  from a have r: "update_document (reference_platform digest model ranking) now c i
      title content metadata = Inr (c\<lparr>docs := (docs c)(i \<mapsto> apply_update d u)\<rparr>)"
    using update_document_reference_content [of c i d x model v digest ranking now title metadata]
      assms unfolding u_def by simp
  have "docs (c\<lparr>docs := (docs c)(i \<mapsto> apply_update d u)\<rparr>) i = Some (apply_update d u)"
    and "dom (docs (c\<lparr>docs := (docs c)(i \<mapsto> apply_update d u)\<rparr>)) = dom (docs c)"
    and "rec_embedding (apply_update d u) = v"
    and "rec_content (apply_update d u) = x"
    and "created_at (apply_update d u) = created_at d"
    and "updated_at (apply_update d u) = now"
    using assms by (auto simp: apply_update_def py_get_def u_def)
  with r show "\<exists>c' d'. update_document (reference_platform digest model ranking) now c i
                    title content metadata = Inr c' \<and>
                  docs c' i = Some d' \<and> dom (docs c') = dom (docs c) \<and>
                  rec_embedding d' = v \<and> rec_content d' = x \<and>
                  created_at d' = created_at d \<and> updated_at d' = now"
    by blast
next
  assume "update_document (reference_platform digest model ranking) now c i
        title content metadata = Inr c''"
  then show "map_option updated_at (docs c'' i) = Some now" and "dom (docs c'') = dom (docs c)"
    by (simp_all add: update_document_reference_success)
qed

theorem update_document_embedding_witness:
  "map_option rec_embedding (docs (snd (projr first_write)) ''id-AWS S3S3 is object storage'') =
     Some [20] \<and>
   \<not> truthy (None :: string option) \<and>
   map_option rec_embedding (docs (projr metadata_update) ''id-AWS S3S3 is object storage'') =
     Some [20] \<and>
   map_option updated_at (docs (projr metadata_update) ''id-AWS S3S3 is object storage'') =
     Some ''2024-07-01T00:00:00'' \<and>
   ''new text'' \<noteq> [] \<and> toy_embed ''new text'' = Inr [8] \<and>
   map_option rec_embedding (docs (projr content_update) ''id-AWS S3S3 is object storage'') =
     Some [8] \<and>
   map_option updated_at (docs (projr content_update) ''id-AWS S3S3 is object storage'') =
     Some ''2024-07-01T00:00:00'' \<and>
   dom (docs (projr content_update)) = {''id-AWS S3S3 is object storage''}"
  using update_document_embedding
    [of "snd (projr first_write)" "''id-AWS S3S3 is object storage''"
        "\<lparr>rec_title = ''AWS S3'', rec_content = ''S3 is object storage'',
          rec_embedding = [20], rec_metadata = [],
          created_at = ''2024-01-01T00:00:00'', updated_at = ''2024-01-01T00:00:01''\<rparr>"
        None toy_digest toy_embed toy_ranking "''2024-07-01T00:00:00''" None
        "Some [(''tag'', ''x'')]" "''new text''" "[8]" "projr metadata_update"]
    update_document_embedding
    [of "snd (projr first_write)" "''id-AWS S3S3 is object storage''"
        "\<lparr>rec_title = ''AWS S3'', rec_content = ''S3 is object storage'',
          rec_embedding = [20], rec_metadata = [],
          created_at = ''2024-01-01T00:00:00'', updated_at = ''2024-01-01T00:00:01''\<rparr>"
        "Some ''new text''" toy_digest toy_embed toy_ranking "''2024-07-01T00:00:00''" None
        None "''new text''" "[8]" "projr content_update"]
  by (simp add: first_cluster metadata_update_eq content_update_eq toy_embed_def truthy_def)

text \<open>
  C8 as stated fails for an empty content: the update supplies the empty string as content,
  and the record keeps its content and its embedding; the embedding of the empty string is
  not computed.
\<close>

theorem update_document_empty_content_counterexample:
  "map_option rec_embedding (docs (snd (projr first_write)) ''id-AWS S3S3 is object storage'') =
     Some [20] \<and>
   toy_embed [] = Inr [0] \<and>
   empty_content_update =
     Inr \<lparr>index_exists = True,
          docs = [''id-AWS S3S3 is object storage'' \<mapsto>
            \<lparr>rec_title = ''AWS S3'', rec_content = ''S3 is object storage'',
             rec_embedding = [20], rec_metadata = [],
             created_at = ''2024-01-01T00:00:00'', updated_at = ''2024-07-01T00:00:00''\<rparr>]\<rparr> \<and>
   map_option rec_embedding (docs (projr empty_content_update) ''id-AWS S3S3 is object storage'') \<noteq>
     Some [0]"
  by (simp add: first_cluster empty_content_update_eq toy_embed_def)

end
